theory Spec2Isabelle
  imports Main "HOL-Library.Word" "HOL-Library.Sublist"
begin

unbundle bit_operations_syntax

chapter \<open>kube2iam: identity index, credential broker and request pipeline\<close>

text \<open>
  A shallow embedding of three parts of the repository:
  \<^item> \<^verbatim>\<open>cmd/store.go\<close>: the IP-to-role index fed by pod events;
  \<^item> the two variants of package \<^verbatim>\<open>iam\<close>: the one on the AWS SDK v1 with a
    package-level response cache, and the one on the AWS SDK v2 without a cache;
  \<^item> \<^verbatim>\<open>server/server.go\<close>: the HTTP handlers, the panic-recovering wrapper and the
    route registrations of \<^verbatim>\<open>Run\<close>.
  Go strings are byte sequences, hence \<^typ>\<open>string\<close>. Mutexes, the wait group and the
  goroutine of the SDK v2 variant only serialise the steps modelled here, so the model is
  sequential. Logging and the Prometheus timers have no effect on results and are left out;
  the cache-hit counter is kept.
\<close>

section \<open>The identity index (cmd/store.go)\<close>

text \<open>
  Of \<^verbatim>\<open>api.Pod\<close> the store reads the annotations and \<^verbatim>\<open>Status.PodIP\<close>. An event
  object is an \<^verbatim>\<open>interface{}\<close>; the type assertion \<^verbatim>\<open>obj.(*api.Pod)\<close> either yields
  the pod or fails.
\<close>

record pod =
  Annotations :: "string \<rightharpoonup> string"
  PodIP :: string

datatype obj = PodObj pod | OtherObj

record store =
  defaultRole :: string
  iamRoleKey :: string
  rolesByIP :: "string \<rightharpoonup> string"

definition newStore :: "string \<Rightarrow> string \<Rightarrow> store" where
  "newStore key dflt = \<lparr>defaultRole = dflt, iamRoleKey = key, rolesByIP = Map.empty\<rparr>"

definition Get :: "store \<Rightarrow> string \<Rightarrow> string" where
  "Get s IP = (case rolesByIP s IP of Some role \<Rightarrow> role | None \<Rightarrow> defaultRole s)"

fun OnAdd :: "store \<Rightarrow> obj \<Rightarrow> store" where
  "OnAdd s (PodObj p) =
     (case Annotations p (iamRoleKey s) of
        Some role \<Rightarrow>
          (if PodIP p = [] then s
           else s\<lparr>rolesByIP := (rolesByIP s)(PodIP p \<mapsto> role)\<rparr>)
      | None \<Rightarrow> s)"
| "OnAdd s OtherObj = s"

fun OnDelete :: "store \<Rightarrow> obj \<Rightarrow> store" where
  "OnDelete s (PodObj p) =
     (if PodIP p = [] then s
      else s\<lparr>rolesByIP := (rolesByIP s)(PodIP p := None)\<rparr>)"
| "OnDelete s OtherObj = s"

fun OnUpdate :: "store \<Rightarrow> obj \<Rightarrow> obj \<Rightarrow> store" where
  "OnUpdate s (PodObj oldPod) (PodObj newPod) =
     (if PodIP oldPod = PodIP newPod then s
      else OnAdd (OnDelete s (PodObj oldPod)) (PodObj newPod))"
| "OnUpdate s OtherObj (PodObj newPod) = OnAdd s (PodObj newPod)"
| "OnUpdate s (PodObj oldPod) OtherObj = OnDelete s (PodObj oldPod)"
| "OnUpdate s OtherObj OtherObj = s"

text \<open>Events used in the examples below: a pod with one role annotation at an address.\<close>

definition role_key :: string where
  "role_key = ''iam.amazonaws.com/role''"

definition pod_with :: "string \<Rightarrow> string \<Rightarrow> pod" where
  "pod_with role ip = \<lparr>Annotations = [role_key \<mapsto> role], PodIP = ip\<rparr>"

definition empty_index :: store where
  "empty_index = newStore role_key ''default-role''"

section \<open>Go library functions used by package iam\<close>

subsection \<open>Errors and panics\<close>

text \<open>
  A Go \<^verbatim>\<open>error\<close> is an AWS error with a code and a message, or any other error with
  its message. A panic carries a string, an error (run-time errors are errors) or
  another value.
\<close>

datatype error = AwsErr string string | ErrorString string

fun Error_text :: "error \<Rightarrow> string" where
  "Error_text (AwsErr code msg) = code @ '': '' @ msg"
| "Error_text (ErrorString msg) = msg"

datatype panic_value = PanicString string | PanicError error | PanicOther

datatype 'a outcome = Returns 'a | Panics panic_value

subsection \<open>UTF-8 decoding and the precision of the verb s\<close>

text \<open>
  A precision on the verb \<^verbatim>\<open>%s\<close> truncates the string to that many runes
  (\<^verbatim>\<open>fmt.truncateString\<close> counts with \<^verbatim>\<open>for i := range s\<close>). Ranging over a string
  decodes UTF-8: a well-formed sequence of two to four bytes is one rune, and any other
  byte is a rune of width one. The byte ranges are those of \<^verbatim>\<open>unicode/utf8\<close>.
\<close>

definition in_range :: "nat \<Rightarrow> nat \<Rightarrow> char \<Rightarrow> bool" where
  "in_range lo hi c = (lo \<le> of_char c \<and> (of_char c :: nat) \<le> hi)"

definition cont :: "char \<Rightarrow> bool" where
  "cont c = in_range 0x80 0xBF c"

fun valid2 :: "string \<Rightarrow> bool" where
  "valid2 [a, b] = (in_range 0xC2 0xDF a \<and> cont b)"
| "valid2 _ = False"

fun valid3 :: "string \<Rightarrow> bool" where
  "valid3 [a, b, c] =
     ((in_range 0xE0 0xE0 a \<and> in_range 0xA0 0xBF b
       \<or> in_range 0xE1 0xEC a \<and> cont b
       \<or> in_range 0xED 0xED a \<and> in_range 0x80 0x9F b
       \<or> in_range 0xEE 0xEF a \<and> cont b) \<and> cont c)"
| "valid3 _ = False"

fun valid4 :: "string \<Rightarrow> bool" where
  "valid4 [a, b, c, d] =
     ((in_range 0xF0 0xF0 a \<and> in_range 0x90 0xBF b
       \<or> in_range 0xF1 0xF3 a \<and> cont b
       \<or> in_range 0xF4 0xF4 a \<and> in_range 0x80 0x8F b) \<and> cont c \<and> cont d)"
| "valid4 _ = False"

definition rune_width :: "string \<Rightarrow> nat" where
  "rune_width s =
     (if valid2 (take 2 s) then 2
      else if valid3 (take 3 s) then 3
      else if valid4 (take 4 s) then 4
      else 1)"

fun truncateString :: "nat \<Rightarrow> string \<Rightarrow> string" where
  "truncateString 0 s = []"
| "truncateString (Suc n) [] = []"
| "truncateString (Suc n) (c # cs) =
     take (rune_width (c # cs)) (c # cs)
       @ truncateString n (drop (rune_width (c # cs)) (c # cs))"

text \<open>\<^verbatim>\<open>utf8.RuneCountInString\<close>: the length of a string in characters.\<close>

function RuneCountInString :: "string \<Rightarrow> nat" where
  "RuneCountInString s =
     (if s = [] then 0 else Suc (RuneCountInString (drop (rune_width s) s)))"
  by pat_completeness auto
termination
  by (relation "measure length") (auto simp: rune_width_def)

declare RuneCountInString.simps [simp del]

subsection \<open>FNV-1a and the verb x\<close>

text \<open>
  \<^verbatim>\<open>hash/fnv\<close>, 32-bit FNV-1a: from the offset basis, each byte is xor-ed into the
  hash, which is then multiplied by the prime, modulo \<open>2 ^ 32\<close>. \<^verbatim>\<open>Write\<close> of a
  \<^verbatim>\<open>hash.Hash\<close> never returns an error.
\<close>

definition offset32 :: "32 word" where
  "offset32 = 2166136261"

definition prime32 :: "32 word" where
  "prime32 = 16777619"

definition fnv_Write :: "32 word \<Rightarrow> string \<Rightarrow> 32 word \<times> error option" where
  "fnv_Write h data = (foldl (\<lambda>hash c. (hash XOR of_char c) * prime32) h data, None)"

text \<open>The digest of a byte string: \<^verbatim>\<open>New32a\<close>, \<^verbatim>\<open>Write\<close>, \<^verbatim>\<open>Sum32\<close>.\<close>

definition fnv32a :: "string \<Rightarrow> 32 word" where
  "fnv32a data = fst (fnv_Write offset32 data)"

definition hexdigit :: "nat \<Rightarrow> char" where
  "hexdigit d = ''0123456789abcdef'' ! d"

text \<open>The verb \<^verbatim>\<open>%x\<close> on an unsigned integer: lower-case hexadecimal, no leading zero.\<close>

fun fmt_x :: "nat \<Rightarrow> string" where
  "fmt_x n = (if n < 16 then [hexdigit n] else fmt_x (n div 16) @ [hexdigit (n mod 16)])"

declare fmt_x.simps [simp del]

text \<open>\<^verbatim>\<open>strings.LastIndex\<close> for a separator of one byte; \<open>-1\<close> when it does not occur.\<close>

fun LastIndexByte :: "string \<Rightarrow> char \<Rightarrow> int" where
  "LastIndexByte [] c = -1"
| "LastIndexByte (x # xs) c =
     (let r = LastIndexByte xs c
      in if 0 \<le> r then r + 1 else if x = c then 0 else -1)"

section \<open>Package iam\<close>

definition nil_dereference :: panic_value where
  "nil_dereference =
     PanicError (ErrorString ''runtime error: invalid memory address or nil pointer dereference'')"

text \<open>
  \<^verbatim>\<open>iam.Credentials\<close>. The two time stamps are kept as instants (nanoseconds since the
  epoch); the code stores their rendering with the layout \<^verbatim>\<open>2006-01-02T15:04:05Z\<close>.
\<close>

record Credentials =
  AccessKeyID :: string
  Code :: string
  Expiration :: int
  LastUpdated :: int
  SecretAccessKey :: string
  Token :: string
  Type :: string

text \<open>The request and the response of the STS call; pointer fields are options.\<close>

record AssumeRoleInput =
  DurationSeconds :: "int option"
  ExternalId :: "string option"
  RoleArn :: string
  RoleSessionName :: string

record sts_Credentials =
  sts_AccessKeyId :: "string option"
  sts_Expiration :: "int option"
  sts_SecretAccessKey :: "string option"
  sts_SessionToken :: "string option"

record AssumeRoleOutput =
  out_Credentials :: "sts_Credentials option"

record Client =
  BaseARN :: string
  Endpoint :: string
  UseRegionalEndpoint :: bool
  StsVpcEndPoint :: string

text \<open>
  What package iam shares with its environment: the clock, the package-level cache
  (\<^verbatim>\<open>var cache = ccache.New(ccache.Configure())\<close>, a map from key to value and expiry),
  the remote STS service as the code reaches it, through the \<^verbatim>\<open>AssumeRole\<close> operation
  of the AWS SDK, which answers the \<open>n\<close>-th call of the operation as \<open>sts_service n\<close>
  says (what the SDK does inside one call of the operation is part of that answer), the
  requests passed to it so far, and the cache-hit counter per role ARN. The clock does
  not advance during a call of \<^verbatim>\<open>AssumeRole\<close>.
\<close>

type_synonym item = "Credentials \<times> int"

record world =
  now :: int
  cache :: "string \<rightharpoonup> item"
  sts_service :: "nat \<Rightarrow> AssumeRoleInput \<Rightarrow> error + AssumeRoleOutput"
  sts_log :: "AssumeRoleInput list"
  IamCacheHitCount :: "string \<Rightarrow> nat"

definition maxSessNameLength :: nat where
  "maxSessNameLength = 64"

definition getHash :: "string \<Rightarrow> string" where
  "getHash text =
     (case fnv_Write offset32 text of
        (h, Some err) \<Rightarrow> text
      | (h, None) \<Rightarrow> fmt_x (unat h))"

definition sessionName :: "string \<Rightarrow> string \<Rightarrow> string" where
  "sessionName roleARN remoteIP =
     (let idx = LastIndexByte roleARN CHR ''/'';
          name = getHash remoteIP @ ''-'' @ drop (nat (idx + 1)) roleARN
      in truncateString maxSessNameLength name)"

text \<open>The last path segment of a role ARN, in the words of the specification.\<close>

definition last_path_segment :: "string \<Rightarrow> string" where
  "last_path_segment arn = rev (takeWhile (\<lambda>c. c \<noteq> CHR ''/'') (rev arn))"

definition sts_AssumeRole ::
  "AssumeRoleInput \<Rightarrow> world \<Rightarrow> (error + AssumeRoleOutput) \<times> world" where
  "sts_AssumeRole inp w =
     (sts_service w (length (sts_log w)) inp, w\<lparr>sts_log := sts_log w @ [inp]\<rparr>)"

text \<open>
  The \<^verbatim>\<open>Credentials\<close> literal built from a response: each field dereferences a
  pointer of the response, and a nil pointer panics.
\<close>

definition newCredentials :: "int \<Rightarrow> AssumeRoleOutput \<Rightarrow> Credentials outcome" where
  "newCredentials t resp =
     (case out_Credentials resp of
        None \<Rightarrow> Panics nil_dereference
      | Some c \<Rightarrow>
          (case (sts_AccessKeyId c, sts_Expiration c, sts_SecretAccessKey c, sts_SessionToken c) of
             (Some k, Some e, Some sk, Some tok) \<Rightarrow>
               Returns \<lparr>AccessKeyID = k, Code = ''Success'', Expiration = e, LastUpdated = t,
                        SecretAccessKey = sk, Token = tok, Type = ''AWS-HMAC''\<rparr>
           | _ \<Rightarrow> Panics nil_dereference))"

text \<open>
  \<^verbatim>\<open>int64(sessionTTL.Seconds() * 2)\<close>, for a duration in nanoseconds: twice the
  duration in seconds, truncated towards zero (up to the rounding of \<^verbatim>\<open>float64\<close>).
\<close>

definition DurationSeconds_of :: "int \<Rightarrow> int" where
  "DurationSeconds_of ttl =
     (if 0 \<le> ttl then (2 * ttl) div 1000000000 else - ((2 * (- ttl)) div 1000000000))"

definition second :: int where
  "second = 1000000000"

subsection \<open>The cache library\<close>

text \<open>
  \<^verbatim>\<open>ccache\<close> is a dependency. An item expires when its expiry instant is before now;
  \<^verbatim>\<open>Fetch\<close> returns the item under the key when there is one that has not expired, and
  otherwise calls the closure: an error is returned and nothing is stored, a value is
  stored with expiry \<open>now + duration\<close>. The closure has a variable \<open>'l\<close> of its
  caller in scope. The cache's eviction of items beyond its capacity is not modelled:
  an item is live while it is in the map.
\<close>

definition Expired :: "item \<Rightarrow> world \<Rightarrow> bool" where
  "Expired it w = (snd it < now w)"

definition Fetch ::
  "string \<Rightarrow> int \<Rightarrow> ('l \<times> world \<Rightarrow> (error + Credentials) outcome \<times> 'l \<times> world)
     \<Rightarrow> 'l \<times> world \<Rightarrow> (error + item) outcome \<times> 'l \<times> world" where
  "Fetch key duration fetch lw =
     (let miss =
        (case fetch lw of
           (Panics p, l', w') \<Rightarrow> (Panics p, l', w')
         | (Returns (Inl err), l', w') \<Rightarrow> (Returns (Inl err), l', w')
         | (Returns (Inr v), l', w') \<Rightarrow>
             (Returns (Inr (v, now w' + duration)), l',
              w'\<lparr>cache := (cache w')(key \<mapsto> (v, now w' + duration))\<rparr>))
      in case cache (snd lw) key of
           None \<Rightarrow> miss
         | Some it \<Rightarrow> if Expired it (snd lw) then miss else (Returns (Inr it), lw))"

subsection \<open>AssumeRole, the variant with the cache (AWS SDK v1)\<close>

definition assumeRoleInput_cached :: "string \<Rightarrow> string \<Rightarrow> string \<Rightarrow> int \<Rightarrow> AssumeRoleInput" where
  "assumeRoleInput_cached roleARN externalID remoteIP sessionTTL =
     \<lparr>DurationSeconds = Some (DurationSeconds_of sessionTTL),
      ExternalId = (if externalID = [] then None else Some externalID),
      RoleArn = roleARN,
      RoleSessionName = sessionName roleARN remoteIP\<rparr>"

definition fetch_closure ::
  "string \<Rightarrow> string \<Rightarrow> string \<Rightarrow> int \<Rightarrow> bool \<times> world
     \<Rightarrow> (error + Credentials) outcome \<times> bool \<times> world" where
  "fetch_closure roleARN externalID remoteIP sessionTTL lw =
     (case sts_AssumeRole (assumeRoleInput_cached roleARN externalID remoteIP sessionTTL) (snd lw) of
        (Inl err, w1) \<Rightarrow> (Returns (Inl err), False, w1)
      | (Inr resp, w1) \<Rightarrow>
          (case newCredentials (now w1) resp of
             Panics p \<Rightarrow> (Panics p, False, w1)
           | Returns c \<Rightarrow> (Returns (Inr c), False, w1)))"

definition AssumeRole_cached ::
  "Client \<Rightarrow> string \<Rightarrow> string \<Rightarrow> string \<Rightarrow> int \<Rightarrow> world
     \<Rightarrow> (error + Credentials) outcome \<times> world" where
  "AssumeRole_cached iam roleARN externalID remoteIP sessionTTL w =
     (case Fetch roleARN (10 * second) (fetch_closure roleARN externalID remoteIP sessionTTL) (True, w) of
        (Panics p, hitCache, w') \<Rightarrow> (Panics p, w')
      | (Returns r, hitCache, w') \<Rightarrow>
          (let w'' = (if hitCache
                      then w'\<lparr>IamCacheHitCount :=
                              (IamCacheHitCount w')(roleARN := Suc (IamCacheHitCount w' roleARN))\<rparr>
                      else w')
           in case r of
                Inl err \<Rightarrow> (Returns (Inl err), w'')
              | Inr it \<Rightarrow> (Returns (Inr (fst it)), w'')))"

subsection \<open>AssumeRole, the variant without a cache (AWS SDK v2)\<close>

definition assumeRoleInput_direct :: "string \<Rightarrow> string \<Rightarrow> string \<Rightarrow> AssumeRoleInput" where
  "assumeRoleInput_direct roleARN externalID remoteIP =
     \<lparr>DurationSeconds = None,
      ExternalId = (if externalID = [] then None else Some externalID),
      RoleArn = roleARN,
      RoleSessionName = sessionName roleARN remoteIP\<rparr>"

definition AssumeRole_direct ::
  "Client \<Rightarrow> string \<Rightarrow> string \<Rightarrow> string \<Rightarrow> int \<Rightarrow> world
     \<Rightarrow> (error + Credentials) outcome \<times> world" where
  "AssumeRole_direct iam roleARN externalID remoteIP sessionTTL w =
     (case sts_AssumeRole (assumeRoleInput_direct roleARN externalID remoteIP) w of
        (Inl err, w1) \<Rightarrow> (Returns (Inl err), w1)
      | (Inr resp, w1) \<Rightarrow>
          (case newCredentials (now w1) resp of
             Panics p \<Rightarrow> (Panics p, w1)
           | Returns c \<Rightarrow> (Returns (Inr c), w1)))"

section \<open>The request pipeline (server/server.go)\<close>

subsection \<open>Requests and response writers of net/http\<close>

text \<open>
  Of a request the handlers read the remote address and the route variables of the
  router. A response writer has a header map, the status once the header is written,
  and the body written so far; a write on a broken connection returns the connection's
  error. The first write sends status 200 when no status was written, and a second
  \<^verbatim>\<open>WriteHeader\<close> is ignored. A body is a sequence of texts and JSON encodings.
\<close>

record request =
  Method :: string
  URL_Path :: string
  RemoteAddr :: string
  Vars :: "string \<rightharpoonup> string"

datatype chunk = Text string | JSON_Credentials Credentials | JSON_Health string string

record ResponseWriter =
  header :: "string \<rightharpoonup> string"
  status :: "nat option"
  body :: "chunk list"
  conn_error :: "error option"

definition Header_Set :: "string \<Rightarrow> string \<Rightarrow> ResponseWriter \<Rightarrow> ResponseWriter" where
  "Header_Set k v w = w\<lparr>header := (header w)(k \<mapsto> v)\<rparr>"

definition Header_Del :: "string \<Rightarrow> ResponseWriter \<Rightarrow> ResponseWriter" where
  "Header_Del k w = w\<lparr>header := (header w)(k := None)\<rparr>"

definition WriteHeader :: "nat \<Rightarrow> ResponseWriter \<Rightarrow> ResponseWriter" where
  "WriteHeader code w = (case status w of None \<Rightarrow> w\<lparr>status := Some code\<rparr> | Some c \<Rightarrow> w)"

definition Write :: "chunk \<Rightarrow> ResponseWriter \<Rightarrow> error option \<times> ResponseWriter" where
  "Write data w =
     (case conn_error w of
        Some err \<Rightarrow> (Some err, WriteHeader 200 w)
      | None \<Rightarrow> (None, (WriteHeader 200 w)\<lparr>body := body w @ [data]\<rparr>))"

text \<open>\<^verbatim>\<open>http.Error\<close>: plain-text headers, the status, and the message with a newline.\<close>

definition http_Error :: "ResponseWriter \<Rightarrow> string \<Rightarrow> nat \<Rightarrow> ResponseWriter" where
  "http_Error w msg code =
     snd (Write (Text (msg @ [CHR 0x0A]))
           (WriteHeader code
             (Header_Set ''X-Content-Type-Options'' ''nosniff''
               (Header_Set ''Content-Type'' ''text/plain; charset=utf-8''
                 (Header_Del ''Content-Length'' w)))))"

definition StatusInternalServerError :: nat where
  "StatusInternalServerError = 500"

definition StatusServiceUnavailable :: nat where
  "StatusServiceUnavailable = 503"

subsection \<open>The server and what it depends on\<close>

text \<open>
  \<^verbatim>\<open>mappings.RoleMapper\<close> is not among the sources: its two lookups are fields of
  the record. Neither are \<^verbatim>\<open>(*iam.Client).RoleARN\<close>, which builds the full ARN of a
  role name, and \<^verbatim>\<open>net.ParseIP\<close> of the Go library: both are parameters, in the
  record \<open>deps\<close>.
\<close>

record RoleMappingResult =
  Role :: string
  Namespace :: string

record RoleMapper =
  GetRoleMappingUsingCache :: "string \<Rightarrow> error + RoleMappingResult"
  GetExternalIDMapping :: "string \<Rightarrow> error + string"

record Server =
  iam :: Client
  roleMapper :: RoleMapper
  IAMRoleSessionTTL :: int
  BackoffMaxElapsedTime :: int
  BackoffMaxInterval :: int
  Debug :: bool
  HostIP :: string
  InstanceID :: string
  HealthcheckFailReason :: string

record deps =
  ParseIP_ok :: "string \<Rightarrow> bool"
  RoleARN :: "Client \<Rightarrow> string \<Rightarrow> string"

text \<open>
  The state a handler runs in: the response writer, the calls the handler has made to
  the role mapper and to the IAM client, in order, and the world of package iam.
\<close>

datatype call =
    Call_RoleARN string
  | Call_AssumeRole string string string int
  | Call_GetRoleMappingUsingCache string
  | Call_GetExternalIDMapping string

record hstate =
  rw :: ResponseWriter
  calls :: "call list"
  wld :: world

type_synonym handler = "request \<Rightarrow> hstate \<Rightarrow> unit outcome \<times> hstate"

type_synonym assume_role =
  "Client \<Rightarrow> string \<Rightarrow> string \<Rightarrow> string \<Rightarrow> int \<Rightarrow> world \<Rightarrow> (error + Credentials) outcome \<times> world"

text \<open>\<^verbatim>\<open>strings.IndexByte\<close>; \<open>-1\<close> when the byte does not occur.\<close>

fun IndexByte :: "string \<Rightarrow> char \<Rightarrow> int" where
  "IndexByte [] c = -1"
| "IndexByte (x # xs) c =
     (if x = c then 0
      else (let r = IndexByte xs c in if 0 \<le> r then r + 1 else -1))"

definition parseRemoteAddr :: "deps \<Rightarrow> string \<Rightarrow> string" where
  "parseRemoteAddr d addr =
     (let n = IndexByte addr CHR '':''
      in if n \<le> 1 then []
         else (let hostname = take (nat n) addr
               in if ParseIP_ok d hostname then hostname else []))"

definition mux_Var :: "request \<Rightarrow> string \<Rightarrow> string" where
  "mux_Var r k = (case Vars r k of None \<Rightarrow> [] | Some v \<Rightarrow> v)"

subsection \<open>Handlers\<close>

definition write_text :: "ResponseWriter \<Rightarrow> string \<Rightarrow> ResponseWriter" where
  "write_text w s = snd (Write (Text s) w)"

definition securityCredentialsHandler :: "deps \<Rightarrow> Server \<Rightarrow> handler" where
  "securityCredentialsHandler d s r st =
     (let w1 = Header_Set ''Server'' ''EC2ws'' (rw st);
          remoteIP = parseRemoteAddr d (RemoteAddr r);
          log = calls st @ [Call_GetRoleMappingUsingCache remoteIP]
      in case GetRoleMappingUsingCache (roleMapper s) remoteIP of
           Inl err \<Rightarrow>
             (Returns (),
              st\<lparr>rw := http_Error w1 (Error_text err) StatusInternalServerError, calls := log\<rparr>)
         | Inr roleMapping \<Rightarrow>
             (if BaseARN (iam s) = [] then
                (Returns (), st\<lparr>rw := write_text w1 (Role roleMapping), calls := log\<rparr>)
              else if prefix (BaseARN (iam s)) (Role roleMapping) then
                (Returns (),
                 st\<lparr>rw := write_text w1 (drop (length (BaseARN (iam s))) (Role roleMapping)),
                    calls := log\<rparr>)
              else (Returns (), st\<lparr>rw := write_text w1 (Role roleMapping), calls := log\<rparr>)))"

definition roleHandler :: "deps \<Rightarrow> assume_role \<Rightarrow> Server \<Rightarrow> handler" where
  "roleHandler d AssumeRole s r st =
     (let w1 = Header_Set ''Server'' ''EC2ws'' (rw st);
          remoteIP = parseRemoteAddr d (RemoteAddr r);
          wantedRole = mux_Var r ''role'';
          wantedRoleARN = RoleARN d (iam s) wantedRole;
          log = calls st @ [Call_RoleARN wantedRole,
                            Call_AssumeRole wantedRoleARN [] remoteIP (IAMRoleSessionTTL s)]
      in case AssumeRole (iam s) wantedRoleARN [] remoteIP (IAMRoleSessionTTL s) (wld st) of
           (Panics p, w') \<Rightarrow> (Panics p, \<lparr>rw = w1, calls = log, wld = w'\<rparr>)
         | (Returns (Inl err), w') \<Rightarrow>
             (Returns (),
              \<lparr>rw = http_Error w1 (Error_text err) StatusServiceUnavailable, calls = log, wld = w'\<rparr>)
         | (Returns (Inr credentials), w') \<Rightarrow>
             (case Write (JSON_Credentials credentials) w1 of
                (Some err, w2) \<Rightarrow>
                  (Returns (),
                   \<lparr>rw = http_Error w2 (Error_text err) StatusServiceUnavailable, calls = log,
                    wld = w'\<rparr>)
              | (None, w2) \<Rightarrow> (Returns (), \<lparr>rw = w2, calls = log, wld = w'\<rparr>)))"

definition healthHandler :: "Server \<Rightarrow> handler" where
  "healthHandler s r st =
     (if HealthcheckFailReason s = [] then
        (case Write (JSON_Health (HostIP s) (InstanceID s))
                (Header_Set ''Content-Type'' ''application/json'' (rw st)) of
           (Some err, w2) \<Rightarrow>
             (Returns (), st\<lparr>rw := http_Error w2 (Error_text err) StatusInternalServerError\<rparr>)
         | (None, w2) \<Rightarrow> (Returns (), st\<lparr>rw := w2\<rparr>))
      else
        (Returns (),
         st\<lparr>rw := http_Error (rw st) (HealthcheckFailReason s) StatusInternalServerError\<rparr>))"

subsection \<open>The recovering wrapper and the routes of Run\<close>

text \<open>
  \<^verbatim>\<open>appHandler.ServeHTTP\<close> runs the wrapped function under a deferred
  \<^verbatim>\<open>recover\<close>: a panic becomes \<^verbatim>\<open>http.Error\<close> with the panic's message and status
  500, and the call returns.
\<close>

fun recovered_message :: "panic_value \<Rightarrow> string" where
  "recovered_message (PanicString t) = t"
| "recovered_message (PanicError e) = Error_text e"
| "recovered_message PanicOther = ''unknown error''"

definition ServeHTTP :: "handler \<Rightarrow> handler" where
  "ServeHTTP fn r st =
     (case fn r st of
        (Panics rec, st') \<Rightarrow>
          (Returns (),
           st'\<lparr>rw := http_Error (rw st') (recovered_message rec) StatusInternalServerError\<rparr>)
      | (Returns u, st') \<Rightarrow> (Returns (), st'))"

text \<open>
  The routes that \<^verbatim>\<open>Run\<close> registers on the router when it boots as web server, in
  order, each with the way it is registered: through \<^verbatim>\<open>newAppHandler\<close>, as a plain
  handler function, or through \<^verbatim>\<open>newrelic.WrapHandleFunc\<close>.
\<close>

datatype route =
    PprofTrace | PprofIndex | DebugStore | SecurityCredentials | SecurityCredentialsSlash
  | RoleCredentials | Healthz | ReverseProxy

datatype registration = Handle_appHandler string | HandleFunc_plain | HandleFunc_newrelic

definition Run_routes :: "Server \<Rightarrow> (route \<times> registration) list" where
  "Run_routes s =
     [(PprofTrace, HandleFunc_plain), (PprofIndex, HandleFunc_plain)]
     @ (if Debug s then [(DebugStore, Handle_appHandler ''debugStoreHandler'')] else [])
     @ [(SecurityCredentials, Handle_appHandler ''securityCredentialsHandler''),
        (SecurityCredentialsSlash, Handle_appHandler ''securityCredentialsHandler''),
        (RoleCredentials, HandleFunc_newrelic),
        (Healthz, Handle_appHandler ''healthHandler''),
        (ReverseProxy, Handle_appHandler ''reverseProxyHandler'')]"

text \<open>
  The handler function behind a route. The profiling handlers, the debug dump and the
  reverse proxy run code of libraries and of the role mapper; they are the parameter
  \<open>ext\<close>.
\<close>

definition route_handler ::
  "deps \<Rightarrow> assume_role \<Rightarrow> (route \<Rightarrow> handler) \<Rightarrow> Server \<Rightarrow> route \<Rightarrow> handler" where
  "route_handler d AssumeRole ext s rt =
     (case rt of
        SecurityCredentials \<Rightarrow> securityCredentialsHandler d s
      | SecurityCredentialsSlash \<Rightarrow> securityCredentialsHandler d s
      | RoleCredentials \<Rightarrow> roleHandler d AssumeRole s
      | Healthz \<Rightarrow> healthHandler s
      | _ \<Rightarrow> ext rt)"

text \<open>
  What the HTTP server does with a request on a registered route. The handler of
  \<^verbatim>\<open>newrelic.WrapHandleFunc\<close> runs the wrapped function inside a transaction and lets a
  panic pass. The connection's goroutine of \<^verbatim>\<open>net/http\<close> recovers a panic of the
  handler it calls, logs it and closes the connection without writing a response; the
  server keeps accepting connections.
\<close>

datatype served = Responded ResponseWriter | ConnectionClosed panic_value

definition registered_handler :: "registration \<Rightarrow> handler \<Rightarrow> handler" where
  "registered_handler reg fn =
     (case reg of
        Handle_appHandler name \<Rightarrow> ServeHTTP fn
      | HandleFunc_plain \<Rightarrow> fn
      | HandleFunc_newrelic \<Rightarrow> fn)"

definition serve ::
  "deps \<Rightarrow> assume_role \<Rightarrow> (route \<Rightarrow> handler) \<Rightarrow> Server \<Rightarrow> route \<times> registration
     \<Rightarrow> request \<Rightarrow> hstate \<Rightarrow> served \<times> hstate" where
  "serve d AssumeRole ext s reg r st =
     (case registered_handler (snd reg) (route_handler d AssumeRole ext s (fst reg)) r st of
        (Panics p, st') \<Rightarrow> (ConnectionClosed p, st')
      | (Returns u, st') \<Rightarrow> (Responded (rw st'), st'))"

section \<open>Notions used in the statements\<close>

text \<open>When a call finds no usable item in the cache.\<close>

definition cache_miss :: "world \<Rightarrow> string \<Rightarrow> bool" where
  "cache_miss w key = (case cache w key of None \<Rightarrow> True | Some it \<Rightarrow> Expired it w)"

text \<open>The expiry of the item under a key after a successful call in world \<open>w\<close>.\<close>

definition expiry_after :: "world \<Rightarrow> string \<Rightarrow> int" where
  "expiry_after w key =
     (case cache w key of
        None \<Rightarrow> now w + 10 * second
      | Some it \<Rightarrow> if Expired it w then now w + 10 * second else snd it)"

definition count_hit :: "string \<Rightarrow> world \<Rightarrow> world" where
  "count_hit key w =
     w\<lparr>IamCacheHitCount := (IamCacheHitCount w)(key := Suc (IamCacheHitCount w key))\<rparr>"

section \<open>Concrete inputs\<close>

definition role_arn :: string where
  "role_arn = ''arn:aws:iam::111:role/payments-svc''"

definition issued :: sts_Credentials where
  "issued = \<lparr>sts_AccessKeyId = Some ''ASIAEXAMPLE'', sts_Expiration = Some (3600 * second),
             sts_SecretAccessKey = Some ''secret'', sts_SessionToken = Some ''token''\<rparr>"

definition issued_credentials :: "int \<Rightarrow> Credentials" where
  "issued_credentials t =
     \<lparr>AccessKeyID = ''ASIAEXAMPLE'', Code = ''Success'', Expiration = 3600 * second,
      LastUpdated = t, SecretAccessKey = ''secret'', Token = ''token'', Type = ''AWS-HMAC''\<rparr>"

definition throttling :: error where
  "throttling = AwsErr ''Throttling'' ''Rate exceeded''"

definition world0 :: "(nat \<Rightarrow> AssumeRoleInput \<Rightarrow> error + AssumeRoleOutput) \<Rightarrow> world" where
  "world0 service =
     \<lparr>now = 100 * second, cache = Map.empty, sts_service = service, sts_log = [],
      IamCacheHitCount = (\<lambda>arn. 0)\<rparr>"

text \<open>Three remote services: one that issues credentials, one that throttles the first
  request only, and one whose response has no credentials.\<close>

definition sts_issuing :: "nat \<Rightarrow> AssumeRoleInput \<Rightarrow> error + AssumeRoleOutput" where
  "sts_issuing n inp = Inr \<lparr>out_Credentials = Some issued\<rparr>"

definition sts_throttling_once :: "nat \<Rightarrow> AssumeRoleInput \<Rightarrow> error + AssumeRoleOutput" where
  "sts_throttling_once n inp =
     (if n = 0 then Inl throttling else Inr \<lparr>out_Credentials = Some issued\<rparr>)"

definition sts_malformed :: "nat \<Rightarrow> AssumeRoleInput \<Rightarrow> error + AssumeRoleOutput" where
  "sts_malformed n inp = Inr \<lparr>out_Credentials = None\<rparr>"

definition client_a :: Client where
  "client_a = \<lparr>BaseARN = ''arn:aws:iam::111:role/'', Endpoint = ''sts.amazonaws.com'',
               UseRegionalEndpoint = False, StsVpcEndPoint = []\<rparr>"

definition client_b :: Client where
  "client_b = \<lparr>BaseARN = ''arn:aws:iam::222:role/'',
               Endpoint = ''https://sts.eu-west-1.amazonaws.com'',
               UseRegionalEndpoint = True, StsVpcEndPoint = []\<rparr>"

definition deps0 :: deps where
  "deps0 = \<lparr>ParseIP_ok = (\<lambda>h. h = ''10.0.0.5''), RoleARN = (\<lambda>c role. BaseARN c @ role)\<rparr>"

text \<open>A role mapper that rejects every caller, and a server that uses it.\<close>

definition rejecting_mapper :: RoleMapper where
  "rejecting_mapper =
     \<lparr>GetRoleMappingUsingCache = (\<lambda>ip. Inl (ErrorString ''role not allowed in namespace'')),
      GetExternalIDMapping = (\<lambda>ip. Inl (ErrorString ''no external id''))\<rparr>"

definition server0 :: Server where
  "server0 =
     \<lparr>iam = client_a, roleMapper = rejecting_mapper, IAMRoleSessionTTL = 900 * second,
      BackoffMaxElapsedTime = second, BackoffMaxInterval = second, Debug = False,
      HostIP = ''10.0.0.1'', InstanceID = ''i-0'', HealthcheckFailReason = []\<rparr>"

definition role_request :: request where
  "role_request =
     \<lparr>Method = ''GET'', URL_Path = ''/latest/meta-data/iam/security-credentials/payments-svc'',
      RemoteAddr = ''10.0.0.5:41000'', Vars = [''version'' \<mapsto> ''latest'', ''role'' \<mapsto> ''payments-svc'']\<rparr>"

definition fresh_writer :: ResponseWriter where
  "fresh_writer = \<lparr>header = Map.empty, status = None, body = [], conn_error = None\<rparr>"

definition hstate0 :: "(nat \<Rightarrow> AssumeRoleInput \<Rightarrow> error + AssumeRoleOutput) \<Rightarrow> hstate" where
  "hstate0 service = \<lparr>rw = fresh_writer, calls = [], wld = world0 service\<rparr>"

definition no_ext :: "route \<Rightarrow> handler" where
  "no_ext rt r st = (Returns (), st)"

definition world_cached :: world where
  "world_cached = (world0 sts_issuing)\<lparr>cache := [role_arn \<mapsto> (issued_credentials (95 * second), 105 * second)]\<rparr>"

definition permissive_mapper :: RoleMapper where
  "permissive_mapper =
     \<lparr>GetRoleMappingUsingCache = (\<lambda>ip. Inr \<lparr>Role = role_arn, Namespace = ''payments''\<rparr>),
      GetExternalIDMapping = (\<lambda>ip. Inr ''external'')\<rparr>"

section \<open>Properties of the identity index\<close>

lemma OnAdd_twice: "OnAdd (OnAdd s e) e = OnAdd s e"
  by (cases e) (auto split: option.splits)

text \<open>
  Claim C8. Applying the same add event twice yields, for every IP, the same resolve
  result as applying it once.
\<close>

theorem Get_OnAdd_idempotent: "Get (OnAdd (OnAdd s e) e) ip = Get (OnAdd s e) ip"
  by (simp only: OnAdd_twice)

lemma Get_OnDelete:
  "Get (OnDelete s (PodObj p)) ip =
     (if PodIP p = [] then Get s ip
      else if ip = PodIP p then defaultRole s else Get s ip)"
  by (simp add: Get_def split: option.splits)

lemma Get_OnAdd_annotated:
  "Annotations p (iamRoleKey s) = Some role \<Longrightarrow> PodIP p \<noteq> [] \<Longrightarrow>
   Get (OnAdd s (PodObj p)) ip = (if ip = PodIP p then role else Get s ip)"
  by (simp add: Get_def split: option.splits)

lemma iamRoleKey_OnDelete: "iamRoleKey (OnDelete s e) = iamRoleKey s"
  by (cases e) simp_all

lemma defaultRole_OnDelete: "defaultRole (OnDelete s e) = defaultRole s"
  by (cases e) simp_all

text \<open>
  Claim C2, as stated, at an update that keeps the IP and changes the role annotation:
  the pod at 10.0.0.5 is registered with role-a, the update carries role-b at the same
  IP, and the index still resolves 10.0.0.5 to role-a.
\<close>

theorem OnUpdate_same_ip_keeps_old_role:
  "PodIP (pod_with ''role-a'' ''10.0.0.5'') = PodIP (pod_with ''role-b'' ''10.0.0.5'')
   \<and> Annotations (pod_with ''role-a'' ''10.0.0.5'') role_key = Some ''role-a''
   \<and> Annotations (pod_with ''role-b'' ''10.0.0.5'') role_key = Some ''role-b''
   \<and> Get (OnUpdate (OnAdd empty_index (PodObj (pod_with ''role-a'' ''10.0.0.5'')))
             (PodObj (pod_with ''role-a'' ''10.0.0.5''))
             (PodObj (pod_with ''role-b'' ''10.0.0.5''))) ''10.0.0.5'' = ''role-a''
   \<and> ''role-a'' \<noteq> ''role-b''"
  by (simp add: pod_with_def empty_index_def newStore_def role_key_def Get_def)

text \<open>
  Claim C2, amended. An update whose pod IP changed is the delete of the old pod followed
  by the add of the new one: afterwards the new IP resolves to the new pod's role
  annotation and the old IP to the default role. An update whose pod IP is unchanged
  leaves the index as it was, whatever the role annotations of the two pods are: every
  IP resolves as before the update.
\<close>

theorem OnUpdate_by_ip:
  "(PodIP oldPod \<noteq> PodIP newPod \<longrightarrow>
      OnUpdate s (PodObj oldPod) (PodObj newPod) = OnAdd (OnDelete s (PodObj oldPod)) (PodObj newPod)
      \<and> (PodIP newPod \<noteq> [] \<and> Annotations newPod (iamRoleKey s) = Some role \<longrightarrow>
           Get (OnUpdate s (PodObj oldPod) (PodObj newPod)) (PodIP newPod) = role)
      \<and> (PodIP oldPod \<noteq> [] \<and> Annotations newPod (iamRoleKey s) = Some role \<longrightarrow>
           Get (OnUpdate s (PodObj oldPod) (PodObj newPod)) (PodIP oldPod) = defaultRole s))
   \<and> (PodIP oldPod = PodIP newPod \<longrightarrow>
        Get (OnUpdate s (PodObj oldPod) (PodObj newPod)) ip = Get s ip)"
proof (intro conjI impI)
  assume "PodIP oldPod \<noteq> PodIP newPod"
  then show "OnUpdate s (PodObj oldPod) (PodObj newPod)
             = OnAdd (OnDelete s (PodObj oldPod)) (PodObj newPod)"
    by simp
next
  assume changed: "PodIP oldPod \<noteq> PodIP newPod"
    and new: "PodIP newPod \<noteq> [] \<and> Annotations newPod (iamRoleKey s) = Some role"
  from new have "Annotations newPod (iamRoleKey (OnDelete s (PodObj oldPod))) = Some role"
    by (simp only: iamRoleKey_OnDelete)
  with new have "Get (OnAdd (OnDelete s (PodObj oldPod)) (PodObj newPod)) (PodIP newPod) = role"
    using Get_OnAdd_annotated [of newPod "OnDelete s (PodObj oldPod)" role "PodIP newPod"]
    by (simp del: OnAdd.simps OnDelete.simps)
  with changed show "Get (OnUpdate s (PodObj oldPod) (PodObj newPod)) (PodIP newPod) = role"
    by simp
next
  assume changed: "PodIP oldPod \<noteq> PodIP newPod"
    and old: "PodIP oldPod \<noteq> [] \<and> Annotations newPod (iamRoleKey s) = Some role"
  from old have "Annotations newPod (iamRoleKey (OnDelete s (PodObj oldPod))) = Some role"
    by (simp only: iamRoleKey_OnDelete)
  then have "Get (OnAdd (OnDelete s (PodObj oldPod)) (PodObj newPod)) (PodIP oldPod)
        = Get (OnDelete s (PodObj oldPod)) (PodIP oldPod)"
    using changed Get_OnAdd_annotated [of newPod "OnDelete s (PodObj oldPod)" role "PodIP oldPod"]
    by (cases "PodIP newPod = []") (simp_all del: OnDelete.simps)
  also have "\<dots> = defaultRole s"
    using old by (simp add: Get_OnDelete del: OnDelete.simps)
  finally show "Get (OnUpdate s (PodObj oldPod) (PodObj newPod)) (PodIP oldPod) = defaultRole s"
    using changed by simp
next
  assume "PodIP oldPod = PodIP newPod"
  then show "Get (OnUpdate s (PodObj oldPod) (PodObj newPod)) ip = Get s ip"
    by simp
qed

theorem OnUpdate_by_ip_witness:
  "Get (OnUpdate (OnAdd empty_index (PodObj (pod_with ''role-a'' ''10.0.0.5'')))
          (PodObj (pod_with ''role-a'' ''10.0.0.5''))
          (PodObj (pod_with ''role-a'' ''10.0.0.9''))) ''10.0.0.9'' = ''role-a''
   \<and> Get (OnUpdate (OnAdd empty_index (PodObj (pod_with ''role-a'' ''10.0.0.5'')))
          (PodObj (pod_with ''role-a'' ''10.0.0.5''))
          (PodObj (pod_with ''role-a'' ''10.0.0.9''))) ''10.0.0.5'' = ''default-role''
   \<and> Get (OnUpdate (OnAdd empty_index (PodObj (pod_with ''role-a'' ''10.0.0.5'')))
          (PodObj (pod_with ''role-a'' ''10.0.0.5''))
          (PodObj (pod_with ''role-b'' ''10.0.0.5''))) ''10.0.0.5''
       = Get (OnAdd empty_index (PodObj (pod_with ''role-a'' ''10.0.0.5''))) ''10.0.0.5''"
  using
    OnUpdate_by_ip [of "pod_with ''role-a'' ''10.0.0.5''" "pod_with ''role-a'' ''10.0.0.9''"
      "OnAdd empty_index (PodObj (pod_with ''role-a'' ''10.0.0.5''))" "''role-a''" "''10.0.0.5''"]
    OnUpdate_by_ip [of "pod_with ''role-a'' ''10.0.0.5''" "pod_with ''role-b'' ''10.0.0.5''"
      "OnAdd empty_index (PodObj (pod_with ''role-a'' ''10.0.0.5''))" "''role-b''" "''10.0.0.5''"]
  by (simp add: pod_with_def empty_index_def newStore_def role_key_def)

text \<open>
  Claim C3, as stated, at a stale delete: after the add of role-b at 10.0.0.5, a delete
  event that carries the earlier pod (role-a at 10.0.0.5) removes the entry, and
  10.0.0.5 resolves to the default role, not to role-b.
\<close>

theorem OnDelete_stale_removes_newer_role:
  "Get (OnAdd empty_index (PodObj (pod_with ''role-b'' ''10.0.0.5''))) ''10.0.0.5'' = ''role-b''
   \<and> Get (OnDelete (OnAdd empty_index (PodObj (pod_with ''role-b'' ''10.0.0.5'')))
             (PodObj (pod_with ''role-a'' ''10.0.0.5''))) ''10.0.0.5'' = ''default-role''
   \<and> ''default-role'' \<noteq> ''role-b''"
  by (simp add: pod_with_def empty_index_def newStore_def role_key_def Get_def)

text \<open>
  Claim C3, amended. A delete event removes whatever entry the index holds at the
  event's pod IP, without comparing the event's role with the registered one: for a
  non-empty pod IP that IP resolves to the default role afterwards and every other IP
  resolves as before; a delete event with an empty pod IP leaves the index unchanged.
\<close>

theorem OnDelete_by_ip:
  "(PodIP p \<noteq> [] \<longrightarrow>
      Get (OnDelete s (PodObj p)) ip = (if ip = PodIP p then defaultRole s else Get s ip))
   \<and> (PodIP p = [] \<longrightarrow> OnDelete s (PodObj p) = s)"
proof (intro conjI impI)
  assume "PodIP p \<noteq> []"
  then show "Get (OnDelete s (PodObj p)) ip = (if ip = PodIP p then defaultRole s else Get s ip)"
    by (simp add: Get_OnDelete del: OnDelete.simps)
next
  assume "PodIP p = []"
  then show "OnDelete s (PodObj p) = s"
    by simp
qed

theorem OnDelete_by_ip_witness:
  "Get (OnDelete (OnAdd empty_index (PodObj (pod_with ''role-b'' ''10.0.0.5'')))
          (PodObj (pod_with ''role-a'' ''10.0.0.5''))) ''10.0.0.5'' = ''default-role''
   \<and> OnDelete empty_index (PodObj (pod_with ''role-a'' [])) = empty_index"
  using
    OnDelete_by_ip [of "pod_with ''role-a'' ''10.0.0.5''"
      "OnAdd empty_index (PodObj (pod_with ''role-b'' ''10.0.0.5''))" "''10.0.0.5''"]
    OnDelete_by_ip [of "pod_with ''role-a'' []" empty_index "''10.0.0.5''"]
  by (simp add: pod_with_def empty_index_def newStore_def role_key_def)

section \<open>Properties of the session name\<close>

lemma valid2_length: "valid2 xs \<Longrightarrow> length xs = 2"
  by (induction xs rule: valid2.induct) simp_all

lemma valid3_length: "valid3 xs \<Longrightarrow> length xs = 3"
  by (induction xs rule: valid3.induct) simp_all

lemma valid4_length: "valid4 xs \<Longrightarrow> length xs = 4"
  by (induction xs rule: valid4.induct) simp_all

lemma take_prefix_eq: "prefix s' s \<Longrightarrow> k \<le> length s' \<Longrightarrow> take k s' = take k s"
  by (auto simp: prefix_def)

lemma valid2_up: "prefix s' s \<Longrightarrow> valid2 (take 2 s') \<Longrightarrow> valid2 (take 2 s)"
  using valid2_length [of "take 2 s'"] take_prefix_eq [of s' s 2] by simp

lemma valid3_up: "prefix s' s \<Longrightarrow> valid3 (take 3 s') \<Longrightarrow> valid3 (take 3 s)"
  using valid3_length [of "take 3 s'"] take_prefix_eq [of s' s 3] by simp

lemma valid4_up: "prefix s' s \<Longrightarrow> valid4 (take 4 s') \<Longrightarrow> valid4 (take 4 s)"
  using valid4_length [of "take 4 s'"] take_prefix_eq [of s' s 4] by simp

lemma rune_width_le: "s \<noteq> [] \<Longrightarrow> rune_width s \<le> length s"
  using valid2_length [of "take 2 s"] valid3_length [of "take 3 s"] valid4_length [of "take 4 s"]
  by (cases s) (auto simp: rune_width_def)

lemma rune_width_pos: "0 < rune_width s"
  by (simp add: rune_width_def)

lemma rune_width_prefix:
  assumes "prefix s' s" and "rune_width s \<le> length s'"
  shows "rune_width s' = rune_width s"
proof -
  have up: "valid2 (take 2 s') \<Longrightarrow> valid2 (take 2 s)"
      "valid3 (take 3 s') \<Longrightarrow> valid3 (take 3 s)"
      "valid4 (take 4 s') \<Longrightarrow> valid4 (take 4 s)"
    using assms(1) valid2_up [of s' s] valid3_up [of s' s] valid4_up [of s' s] by blast+
  have down: "\<And>k. k \<le> length s' \<Longrightarrow> take k s' = take k s"
    using assms(1) by (rule take_prefix_eq)
  show ?thesis
  proof (cases "valid2 (take 2 s)")
    case True
    then have "rune_width s = 2" by (simp add: rune_width_def)
    with assms(2) have "take 2 s' = take 2 s" by (simp add: down)
    with True show ?thesis by (simp add: rune_width_def)
  next
    case n2: False
    then have n2': "\<not> valid2 (take 2 s')" using up(1) by blast
    show ?thesis
    proof (cases "valid3 (take 3 s)")
      case True
      with n2 have "rune_width s = 3" by (simp add: rune_width_def)
      with assms(2) have "take 3 s' = take 3 s" by (simp add: down)
      with True n2 n2' show ?thesis by (simp add: rune_width_def)
    next
      case n3: False
      then have n3': "\<not> valid3 (take 3 s')" using up(2) by blast
      show ?thesis
      proof (cases "valid4 (take 4 s)")
        case True
        with n2 n3 have "rune_width s = 4" by (simp add: rune_width_def)
        with assms(2) have "take 4 s' = take 4 s" by (simp add: down)
        with True n2 n2' n3 n3' show ?thesis by (simp add: rune_width_def)
      next
        case n4: False
        then have "\<not> valid4 (take 4 s')" using up(3) by blast
        with n2 n2' n3 n3' n4 show ?thesis by (simp add: rune_width_def)
      qed
    qed
  qed
qed

lemma truncateString_prefix: "prefix (truncateString n s) s"
proof (induction n s rule: truncateString.induct)
  case (3 n c cs)
  have "prefix (take (rune_width (c # cs)) (c # cs) @ truncateString n (drop (rune_width (c # cs)) (c # cs)))
          (take (rune_width (c # cs)) (c # cs) @ drop (rune_width (c # cs)) (c # cs))"
    using 3 by (simp only: same_prefix_prefix)
  then show ?case by (simp del: take_Suc_Cons drop_Suc_Cons)
qed simp_all

lemma RuneCount_truncateString: "RuneCountInString (truncateString n s) \<le> n"
proof (induction n s rule: truncateString.induct)
  case (1 s)
  show ?case by (simp add: RuneCountInString.simps)
next
  case (2 n)
  show ?case by (simp add: RuneCountInString.simps)
next
  case (3 n c cs)
  let ?s = "c # cs"
  let ?w = "rune_width ?s"
  let ?r = "truncateString (Suc n) ?s"
  have r: "?r = take ?w ?s @ truncateString n (drop ?w ?s)" by simp
  have wle: "?w \<le> length ?s" by (rule rune_width_le) simp
  then have len: "length (take ?w ?s) = ?w" by simp
  have "?w \<le> length ?r" unfolding r using len by (simp del: take_Suc_Cons drop_Suc_Cons)
  then have w': "rune_width ?r = ?w"
    using truncateString_prefix [of "Suc n" ?s] by (rule rune_width_prefix [rotated])
  have ne: "?r \<noteq> []"
    unfolding r using len rune_width_pos [of ?s] by (auto simp del: take_Suc_Cons drop_Suc_Cons)
  have "drop ?w ?r = truncateString n (drop ?w ?s)"
    unfolding r using len by (simp del: take_Suc_Cons drop_Suc_Cons)
  then have "RuneCountInString ?r = Suc (RuneCountInString (truncateString n (drop ?w ?s)))"
    using ne w' by (subst RuneCountInString.simps) (simp del: truncateString.simps)
  with 3 show ?case by (simp del: truncateString.simps)
qed

lemma hexdigit_in: "d < 16 \<Longrightarrow> hexdigit d \<in> set ''0123456789abcdef''"
  unfolding hexdigit_def by (rule nth_mem) simp

lemma fmt_x_digits: "set (fmt_x n) \<subseteq> set ''0123456789abcdef''"
proof (induction n rule: fmt_x.induct)
  case (1 n)
  show ?case
  proof (cases "n < 16")
    case True
    then show ?thesis using hexdigit_in [of n] by (subst fmt_x.simps) simp
  next
    case False
    then show ?thesis using 1 hexdigit_in [of "n mod 16"] by (subst fmt_x.simps) simp
  qed
qed

lemma fmt_x_length: "n < 16 ^ k \<Longrightarrow> 0 < k \<Longrightarrow> length (fmt_x n) \<le> k"
proof (induction n arbitrary: k rule: fmt_x.induct)
  case (1 n)
  show ?case
  proof (cases "n < 16")
    case True
    then show ?thesis using 1(3) by (subst fmt_x.simps) simp
  next
    case False
    then obtain j where k: "k = Suc j" and j: "0 < j"
      using 1(2,3) by (cases k; cases "k - 1") auto
    from 1(2) k have "n div 16 < 16 ^ j"
      by (simp add: less_mult_imp_div_less mult.commute)
    with 1(1) [OF False this j] k False show ?thesis by (subst fmt_x.simps) simp
  qed
qed

lemma fmt_x_nonempty: "fmt_x n \<noteq> []"
  by (subst fmt_x.simps) simp

text \<open>
  The index of the last separator is below the length, so the slice
  \<^verbatim>\<open>roleARN[idx+1:]\<close> of \<^verbatim>\<open>sessionName\<close> is always within bounds.
\<close>

lemma LastIndexByte_none: "LastIndexByte s c < 0 \<longleftrightarrow> c \<notin> set s"
  by (induction s) (auto simp: Let_def)

lemma LastIndexByte_ge: "- 1 \<le> LastIndexByte s c"
  by (induction s) (auto simp: Let_def)

lemma LastIndexByte_lt: "LastIndexByte s c < int (length s)"
  by (induction s) (auto simp: Let_def)

lemma drop_LastIndexByte:
  "drop (nat (LastIndexByte s c + 1)) s = rev (takeWhile (\<lambda>x. x \<noteq> c) (rev s))"
proof (induction s)
  case Nil
  show ?case by simp
next
  case (Cons x xs)
  show ?case
  proof (cases "0 \<le> LastIndexByte xs c")
    case True
    then have in_xs: "c \<in> set xs" using LastIndexByte_none [of xs c] by simp
    from True have "drop (nat (LastIndexByte (x # xs) c + 1)) (x # xs)
        = drop (nat (LastIndexByte xs c + 1)) xs"
      by (simp add: Let_def nat_add_distrib)
    also have "\<dots> = rev (takeWhile (\<lambda>x. x \<noteq> c) (rev xs))" by (rule Cons.IH)
    also have "\<dots> = rev (takeWhile (\<lambda>x. x \<noteq> c) (rev (x # xs)))"
      using in_xs by (simp add: takeWhile_append1)
    finally show ?thesis .
  next
    case False
    then have notin: "c \<notin> set xs" using LastIndexByte_none [of xs c] by simp
    then have tw: "takeWhile (\<lambda>x. x \<noteq> c) (rev xs @ [x]) = rev xs @ takeWhile (\<lambda>x. x \<noteq> c) [x]"
      by (intro takeWhile_append2) auto
    show ?thesis
    proof (cases "x = c")
      case True
      with False tw show ?thesis by (simp add: Let_def)
    next
      case neq: False
      with False show ?thesis by (simp add: Let_def tw)
    qed
  qed
qed

lemma getHash_fmt: "getHash text = fmt_x (unat (fnv32a text))"
  by (simp add: getHash_def fnv_Write_def fnv32a_def)

text \<open>
  Claim C5. For every role ARN and every caller IP, the session name is the digest of
  the caller IP (the 32-bit FNV-1a hash of its bytes in hexadecimal: at most eight
  characters, all of them hexadecimal digits, so never the text of an IP address), a
  hyphen and the last path segment of the role ARN, truncated to 64 characters; its
  length in characters never exceeds 64.
\<close>

theorem sessionName_digest_segment_bounded:
  "sessionName roleARN remoteIP
     = truncateString 64 (fmt_x (unat (fnv32a remoteIP)) @ ''-'' @ last_path_segment roleARN)
   \<and> RuneCountInString (sessionName roleARN remoteIP) \<le> 64
   \<and> set (getHash remoteIP) \<subseteq> set ''0123456789abcdef''
   \<and> getHash remoteIP \<noteq> []
   \<and> length (getHash remoteIP) \<le> 8"
proof -
  have "unat (fnv32a remoteIP) < 16 ^ 8"
    using unsigned_less [of "fnv32a remoteIP", where ?'a = nat] by simp
  then have len: "length (fmt_x (unat (fnv32a remoteIP))) \<le> 8"
    by (rule fmt_x_length) simp
  have name: "sessionName roleARN remoteIP
     = truncateString 64 (fmt_x (unat (fnv32a remoteIP)) @ ''-'' @ last_path_segment roleARN)"
    by (simp add: sessionName_def maxSessNameLength_def getHash_fmt last_path_segment_def
        drop_LastIndexByte Let_def)
  have count: "RuneCountInString (sessionName roleARN remoteIP) \<le> 64"
    unfolding name by (rule RuneCount_truncateString)
  have digits: "set (getHash remoteIP) \<subseteq> set ''0123456789abcdef''"
    unfolding getHash_fmt by (rule fmt_x_digits)
  have nonempty: "getHash remoteIP \<noteq> []"
    unfolding getHash_fmt by (rule fmt_x_nonempty)
  have "length (getHash remoteIP) \<le> 8"
    unfolding getHash_fmt by (rule len)
  with name count digits nonempty show ?thesis
    by (intro conjI)
qed

section \<open>Properties of the credential broker\<close>

lemma parse_ex: "parseRemoteAddr deps0 ''10.0.0.5:41000'' = ''10.0.0.5''"
  by (simp add: parseRemoteAddr_def deps0_def)

lemma AssumeRole_cached_live:
  assumes "cache w roleARN = Some (creds, expires)" and "now w \<le> expires"
  shows "AssumeRole_cached cl roleARN externalID remoteIP sessionTTL w
         = (Returns (Inr creds), count_hit roleARN w)"
  using assms by (simp add: AssumeRole_cached_def Fetch_def Expired_def count_hit_def)

lemma AssumeRole_cached_miss:
  assumes "cache_miss w roleARN"
  shows "AssumeRole_cached cl roleARN externalID remoteIP sessionTTL w =
     (case sts_service w (length (sts_log w))
             (assumeRoleInput_cached roleARN externalID remoteIP sessionTTL) of
        Inl err \<Rightarrow>
          (Returns (Inl err),
           w\<lparr>sts_log := sts_log w @ [assumeRoleInput_cached roleARN externalID remoteIP sessionTTL]\<rparr>)
      | Inr resp \<Rightarrow>
          (case newCredentials (now w) resp of
             Panics p \<Rightarrow>
               (Panics p,
                w\<lparr>sts_log := sts_log w @ [assumeRoleInput_cached roleARN externalID remoteIP sessionTTL]\<rparr>)
           | Returns c \<Rightarrow>
               (Returns (Inr c),
                w\<lparr>sts_log := sts_log w @ [assumeRoleInput_cached roleARN externalID remoteIP sessionTTL],
                  cache := (cache w)(roleARN \<mapsto> (c, now w + 10 * second))\<rparr>)))"
  using assms
  by (auto simp: AssumeRole_cached_def Fetch_def cache_miss_def fetch_closure_def
        sts_AssumeRole_def Let_def split: option.splits sum.splits outcome.splits)

lemma AssumeRole_direct_eq:
  "AssumeRole_direct cl roleARN externalID remoteIP sessionTTL w =
     (case sts_service w (length (sts_log w)) (assumeRoleInput_direct roleARN externalID remoteIP) of
        Inl err \<Rightarrow>
          (Returns (Inl err),
           w\<lparr>sts_log := sts_log w @ [assumeRoleInput_direct roleARN externalID remoteIP]\<rparr>)
      | Inr resp \<Rightarrow>
          (case newCredentials (now w) resp of
             Panics p \<Rightarrow>
               (Panics p, w\<lparr>sts_log := sts_log w @ [assumeRoleInput_direct roleARN externalID remoteIP]\<rparr>)
           | Returns c \<Rightarrow>
               (Returns (Inr c),
                w\<lparr>sts_log := sts_log w @ [assumeRoleInput_direct roleARN externalID remoteIP]\<rparr>)))"
  by (simp add: AssumeRole_direct_def sts_AssumeRole_def split: sum.splits outcome.splits)

text \<open>
  Claim C6. An \<^verbatim>\<open>AssumeRole\<close> call that finds an unexpired item for the role ARN in the
  cache returns the cached credentials, sends no request to the remote service,
  increments the cache-hit counter of that ARN and leaves the cache as it is, whatever
  the client, the external ID, the caller IP and the session TTL of the call are.
\<close>

theorem AssumeRole_cached_hit:
  assumes "cache w roleARN = Some (creds, expires)" and "now w \<le> expires"
  shows "fst (AssumeRole_cached cl roleARN externalID remoteIP sessionTTL w) = Returns (Inr creds)
    \<and> sts_log (snd (AssumeRole_cached cl roleARN externalID remoteIP sessionTTL w)) = sts_log w
    \<and> IamCacheHitCount (snd (AssumeRole_cached cl roleARN externalID remoteIP sessionTTL w)) roleARN
        = Suc (IamCacheHitCount w roleARN)
    \<and> cache (snd (AssumeRole_cached cl roleARN externalID remoteIP sessionTTL w)) = cache w"
  using AssumeRole_cached_live [OF assms] by (simp add: count_hit_def)

theorem AssumeRole_cached_hit_witness:
  "fst (AssumeRole_cached client_b role_arn ''external'' ''10.0.0.9'' (60 * second) world_cached)
     = Returns (Inr (issued_credentials (95 * second)))
   \<and> sts_log (snd (AssumeRole_cached client_b role_arn ''external'' ''10.0.0.9'' (60 * second) world_cached)) = []
   \<and> IamCacheHitCount (snd (AssumeRole_cached client_b role_arn ''external'' ''10.0.0.9'' (60 * second) world_cached)) role_arn = 1"
  using AssumeRole_cached_hit [of world_cached role_arn "issued_credentials (95 * second)" "105 * second"
      client_b "''external''" "''10.0.0.9''" "60 * second"]
  by (simp add: world_cached_def world0_def second_def)

lemma AssumeRole_cached_stores:
  assumes "AssumeRole_cached cl roleARN externalID remoteIP sessionTTL w = (Returns (Inr creds), w1)"
  shows "cache w1 roleARN = Some (creds, expiry_after w roleARN)"
proof (cases "cache_miss w roleARN")
  case True
  then show ?thesis
    using assms
    by (auto simp: AssumeRole_cached_miss expiry_after_def cache_miss_def
          split: sum.splits outcome.splits option.splits)
next
  case False
  then obtain c e where ce: "cache w roleARN = Some (c, e)" "now w \<le> e"
    by (auto simp: cache_miss_def Expired_def split: option.splits)
  with assms AssumeRole_cached_live [OF ce] show ?thesis
    by (auto simp: expiry_after_def Expired_def count_hit_def)
qed

text \<open>
  Claim C9. The cache belongs to the package, not to a client, and its key is the role
  ARN alone. After a successful \<^verbatim>\<open>AssumeRole\<close> of any client for a role ARN, an
  \<^verbatim>\<open>AssumeRole\<close> for the same ARN by any client, with any external ID, caller IP and
  session TTL, returns the same credentials without a request to the remote service,
  as long as the item is still under the key and its expiry has not passed; when the
  first call sent a remote request, that expiry is 10 seconds after it.
\<close>

theorem AssumeRole_cached_shared:
  assumes "AssumeRole_cached cl1 roleARN externalID1 remoteIP1 sessionTTL1 w = (Returns (Inr creds), w1)"
    and "cache w2 roleARN = cache w1 roleARN"
    and "now w2 \<le> expiry_after w roleARN"
  shows "fst (AssumeRole_cached cl2 roleARN externalID2 remoteIP2 sessionTTL2 w2) = Returns (Inr creds)
    \<and> sts_log (snd (AssumeRole_cached cl2 roleARN externalID2 remoteIP2 sessionTTL2 w2)) = sts_log w2
    \<and> (sts_log w1 = sts_log w \<or> expiry_after w roleARN = now w + 10 * second)"
proof -
  have stored: "cache w2 roleARN = Some (creds, expiry_after w roleARN)"
    using AssumeRole_cached_stores [OF assms(1)] assms(2) by simp
  have fresh: "sts_log w1 = sts_log w \<or> expiry_after w roleARN = now w + 10 * second"
  proof (cases "cache_miss w roleARN")
    case True
    then show ?thesis
      by (auto simp: expiry_after_def cache_miss_def split: option.splits)
  next
    case False
    then obtain c e where ce: "cache w roleARN = Some (c, e)" "now w \<le> e"
      by (auto simp: cache_miss_def Expired_def split: option.splits)
    with assms(1) AssumeRole_cached_live [OF ce] show ?thesis
      by (auto simp: count_hit_def)
  qed
  from AssumeRole_cached_live [OF stored assms(3)] fresh show ?thesis
    by (simp add: count_hit_def)
qed

theorem AssumeRole_cached_shared_witness:
  "fst (AssumeRole_cached client_b role_arn ''external'' ''10.0.0.9'' (60 * second)
         ((snd (AssumeRole_cached client_a role_arn [] ''10.0.0.5'' (900 * second) (world0 sts_issuing)))
            \<lparr>now := 109 * second\<rparr>))
     = Returns (Inr (issued_credentials (100 * second)))
   \<and> length (sts_log (snd (AssumeRole_cached client_b role_arn ''external'' ''10.0.0.9'' (60 * second)
         ((snd (AssumeRole_cached client_a role_arn [] ''10.0.0.5'' (900 * second) (world0 sts_issuing)))
            \<lparr>now := 109 * second\<rparr>)))) = 1"
  using AssumeRole_cached_shared [of client_a role_arn "[]" "''10.0.0.5''" "900 * second"
      "world0 sts_issuing" "issued_credentials (100 * second)"
      "snd (AssumeRole_cached client_a role_arn [] ''10.0.0.5'' (900 * second) (world0 sts_issuing))"
      "(snd (AssumeRole_cached client_a role_arn [] ''10.0.0.5'' (900 * second) (world0 sts_issuing)))
            \<lparr>now := 109 * second\<rparr>"
      client_b "''external''" "''10.0.0.9''" "60 * second"]
  by (simp add: AssumeRole_cached_miss cache_miss_def world0_def sts_issuing_def
      newCredentials_def issued_def issued_credentials_def expiry_after_def second_def)

text \<open>
  Claim C4, as stated, at a transient failure: the remote call answers the first
  request with a throttling error and would answer a second one with credentials. Both
  variants of \<^verbatim>\<open>AssumeRole\<close> return the throttling error after a single request.
\<close>

theorem AssumeRole_throttled_not_retried:
  "fst (AssumeRole_cached client_a role_arn [] ''10.0.0.5'' (900 * second) (world0 sts_throttling_once))
     = Returns (Inl throttling)
   \<and> length (sts_log (snd (AssumeRole_cached client_a role_arn [] ''10.0.0.5'' (900 * second)
        (world0 sts_throttling_once)))) = 1
   \<and> fst (AssumeRole_direct client_a role_arn [] ''10.0.0.5'' (900 * second) (world0 sts_throttling_once))
     = Returns (Inl throttling)
   \<and> length (sts_log (snd (AssumeRole_direct client_a role_arn [] ''10.0.0.5'' (900 * second)
        (world0 sts_throttling_once)))) = 1
   \<and> sts_throttling_once 1 (assumeRoleInput_cached role_arn [] ''10.0.0.5'' (900 * second))
     = Inr \<lparr>out_Credentials = Some issued\<rparr>
   \<and> sts_throttling_once 1 (assumeRoleInput_direct role_arn [] ''10.0.0.5'')
     = Inr \<lparr>out_Credentials = Some issued\<rparr>"
  by (simp add: AssumeRole_cached_miss AssumeRole_direct_eq cache_miss_def world0_def
      sts_throttling_once_def)

text \<open>
  Claim C4, amended. No backoff wraps the remote assume-role call. The variant without
  a cache sends exactly one request per call, the variant with the cache exactly one on
  a cache miss and none on a hit; an error of that request, transient or permanent, is
  returned to the caller at once, and in the variant with the cache nothing is stored.
\<close>

theorem AssumeRole_single_attempt:
  "length (sts_log (snd (AssumeRole_direct cl roleARN externalID remoteIP sessionTTL w)))
     = Suc (length (sts_log w))
   \<and> length (sts_log (snd (AssumeRole_cached cl roleARN externalID remoteIP sessionTTL w)))
     = (if cache_miss w roleARN then Suc (length (sts_log w)) else length (sts_log w))
   \<and> (sts_service w (length (sts_log w)) (assumeRoleInput_direct roleARN externalID remoteIP) = Inl err
        \<longrightarrow> fst (AssumeRole_direct cl roleARN externalID remoteIP sessionTTL w) = Returns (Inl err))
   \<and> (cache_miss w roleARN
        \<and> sts_service w (length (sts_log w))
             (assumeRoleInput_cached roleARN externalID remoteIP sessionTTL) = Inl err
        \<longrightarrow> fst (AssumeRole_cached cl roleARN externalID remoteIP sessionTTL w) = Returns (Inl err)
            \<and> cache (snd (AssumeRole_cached cl roleARN externalID remoteIP sessionTTL w)) = cache w)"
proof (intro conjI impI)
  show "length (sts_log (snd (AssumeRole_direct cl roleARN externalID remoteIP sessionTTL w)))
     = Suc (length (sts_log w))"
    by (simp add: AssumeRole_direct_eq split: sum.splits outcome.splits)
next
  show "length (sts_log (snd (AssumeRole_cached cl roleARN externalID remoteIP sessionTTL w)))
     = (if cache_miss w roleARN then Suc (length (sts_log w)) else length (sts_log w))"
  proof (cases "cache_miss w roleARN")
    case True
    then show ?thesis
      by (simp add: AssumeRole_cached_miss split: sum.splits outcome.splits)
  next
    case False
    then obtain c e where ce: "cache w roleARN = Some (c, e)" "now w \<le> e"
      by (auto simp: cache_miss_def Expired_def split: option.splits)
    from False AssumeRole_cached_live [OF ce] show ?thesis
      by (simp add: count_hit_def)
  qed
next
  assume "sts_service w (length (sts_log w)) (assumeRoleInput_direct roleARN externalID remoteIP) = Inl err"
  then show "fst (AssumeRole_direct cl roleARN externalID remoteIP sessionTTL w) = Returns (Inl err)"
    by (simp add: AssumeRole_direct_eq)
next
  assume a: "cache_miss w roleARN
        \<and> sts_service w (length (sts_log w))
             (assumeRoleInput_cached roleARN externalID remoteIP sessionTTL) = Inl err"
  then show "fst (AssumeRole_cached cl roleARN externalID remoteIP sessionTTL w) = Returns (Inl err)"
    by (simp add: AssumeRole_cached_miss)
  from a show "cache (snd (AssumeRole_cached cl roleARN externalID remoteIP sessionTTL w)) = cache w"
    by (simp add: AssumeRole_cached_miss)
qed

theorem AssumeRole_single_attempt_witness:
  "fst (AssumeRole_direct client_a role_arn [] ''10.0.0.5'' (900 * second) (world0 sts_throttling_once))
     = Returns (Inl throttling)
   \<and> fst (AssumeRole_cached client_a role_arn [] ''10.0.0.5'' (900 * second) (world0 sts_throttling_once))
     = Returns (Inl throttling)
   \<and> cache (snd (AssumeRole_cached client_a role_arn [] ''10.0.0.5'' (900 * second)
        (world0 sts_throttling_once))) = Map.empty
   \<and> length (sts_log (snd (AssumeRole_cached client_a role_arn [] ''10.0.0.5'' (900 * second)
        (world0 sts_throttling_once)))) = 1"
  using AssumeRole_single_attempt [of client_a role_arn "[]" "''10.0.0.5''" "900 * second"
      "world0 sts_throttling_once" throttling]
  by (simp add: cache_miss_def world0_def sts_throttling_once_def)

section \<open>Properties of the request pipeline\<close>

lemma roleHandler_cached_miss_log:
  assumes "cache_miss (wld st) (RoleARN d (iam s) (mux_Var r ''role''))"
  shows "sts_log (wld (snd (roleHandler d AssumeRole_cached s r st)))
     = sts_log (wld st) @ [assumeRoleInput_cached (RoleARN d (iam s) (mux_Var r ''role'')) []
          (parseRemoteAddr d (RemoteAddr r)) (IAMRoleSessionTTL s)]"
  using assms
  by (simp add: roleHandler_def Let_def AssumeRole_cached_miss
      split: sum.splits outcome.splits prod.splits option.splits)

lemma roleHandler_direct_log:
  "sts_log (wld (snd (roleHandler d AssumeRole_direct s r st)))
     = sts_log (wld st) @ [assumeRoleInput_direct (RoleARN d (iam s) (mux_Var r ''role'')) []
          (parseRemoteAddr d (RemoteAddr r))]"
  by (simp add: roleHandler_def Let_def AssumeRole_direct_eq
      split: sum.splits outcome.splits prod.splits option.splits)

text \<open>
  Claim C1, as stated, at a caller that the role mapper rejects: the lookup for the
  caller's address fails, and the handler of the role-credentials route still sends the
  request for the role's ARN to the remote service and answers 200 with the
  credentials.
\<close>

theorem roleHandler_serves_rejected_caller:
  "GetRoleMappingUsingCache (roleMapper server0) (parseRemoteAddr deps0 (RemoteAddr role_request))
     = Inl (ErrorString ''role not allowed in namespace'')
   \<and> fst (roleHandler deps0 AssumeRole_cached server0 role_request (hstate0 sts_issuing)) = Returns ()
   \<and> status (rw (snd (roleHandler deps0 AssumeRole_cached server0 role_request (hstate0 sts_issuing))))
       = Some 200
   \<and> body (rw (snd (roleHandler deps0 AssumeRole_cached server0 role_request (hstate0 sts_issuing))))
       = [JSON_Credentials (issued_credentials (100 * second))]
   \<and> map RoleArn (sts_log (wld (snd (roleHandler deps0 AssumeRole_cached server0 role_request
        (hstate0 sts_issuing))))) = [role_arn]"
  by (simp add: roleHandler_def Let_def AssumeRole_cached_miss cache_miss_def hstate0_def world0_def
      server0_def rejecting_mapper_def role_request_def deps0_def parse_ex mux_Var_def client_a_def
      sts_issuing_def newCredentials_def issued_def issued_credentials_def Write_def WriteHeader_def
      Header_Set_def fresh_writer_def role_arn_def assumeRoleInput_cached_def)

text \<open>
  Claim C1, amended. For every request on the role-credentials route the handler builds
  the full ARN for the role of the route and calls the credential broker with it; it
  evaluates no authorization policy and resolves no namespace: its result is the same
  for every role mapper, and unless the cache holds an unexpired item for the ARN, the
  request for that ARN is sent to the remote service.
\<close>

theorem roleHandler_calls_broker_unconditionally:
  "roleHandler d A (s\<lparr>roleMapper := rm\<rparr>) r st = roleHandler d A s r st
   \<and> sts_log (wld (snd (roleHandler d AssumeRole_direct s r st)))
       = sts_log (wld st) @ [assumeRoleInput_direct (RoleARN d (iam s) (mux_Var r ''role'')) []
            (parseRemoteAddr d (RemoteAddr r))]
   \<and> (cache_miss (wld st) (RoleARN d (iam s) (mux_Var r ''role'')) \<longrightarrow>
        sts_log (wld (snd (roleHandler d AssumeRole_cached s r st)))
          = sts_log (wld st) @ [assumeRoleInput_cached (RoleARN d (iam s) (mux_Var r ''role'')) []
               (parseRemoteAddr d (RemoteAddr r)) (IAMRoleSessionTTL s)])"
proof (intro conjI impI)
  show "roleHandler d A (s\<lparr>roleMapper := rm\<rparr>) r st = roleHandler d A s r st"
    by (simp add: roleHandler_def)
qed (simp_all only: roleHandler_direct_log roleHandler_cached_miss_log)

theorem roleHandler_calls_broker_unconditionally_witness:
  "roleHandler deps0 AssumeRole_cached (server0\<lparr>roleMapper := permissive_mapper\<rparr>) role_request
       (hstate0 sts_issuing)
     = roleHandler deps0 AssumeRole_cached server0 role_request (hstate0 sts_issuing)
   \<and> map RoleArn (sts_log (wld (snd (roleHandler deps0 AssumeRole_cached server0 role_request
        (hstate0 sts_issuing))))) = [role_arn]
   \<and> map RoleArn (sts_log (wld (snd (roleHandler deps0 AssumeRole_direct server0 role_request
        (hstate0 sts_issuing))))) = [role_arn]"
  using roleHandler_calls_broker_unconditionally [where d = deps0 and A = AssumeRole_cached
      and s = server0 and rm = permissive_mapper and r = role_request and st = "hstate0 sts_issuing"]
  by (simp add: cache_miss_def hstate0_def world0_def server0_def role_request_def deps0_def
      mux_Var_def client_a_def role_arn_def assumeRoleInput_cached_def assumeRoleInput_direct_def)

lemma roleHandler_calls:
  "calls (snd (roleHandler d A s r st))
     = calls st @ [Call_RoleARN (mux_Var r ''role''),
                   Call_AssumeRole (RoleARN d (iam s) (mux_Var r ''role'')) []
                     (parseRemoteAddr d (RemoteAddr r)) (IAMRoleSessionTTL s)]"
  by (simp add: roleHandler_def Let_def
      split: sum.splits outcome.splits prod.splits option.splits)

lemma roleHandler_cached_new_requests:
  "drop (length (sts_log (wld st))) (sts_log (wld (snd (roleHandler d AssumeRole_cached s r st))))
     = (if cache_miss (wld st) (RoleARN d (iam s) (mux_Var r ''role''))
        then [assumeRoleInput_cached (RoleARN d (iam s) (mux_Var r ''role'')) []
                (parseRemoteAddr d (RemoteAddr r)) (IAMRoleSessionTTL s)]
        else [])"
proof (cases "cache_miss (wld st) (RoleARN d (iam s) (mux_Var r ''role''))")
  case True
  then show ?thesis by (simp add: roleHandler_cached_miss_log)
next
  case False
  then obtain c e where ce: "cache (wld st) (RoleARN d (iam s) (mux_Var r ''role'')) = Some (c, e)"
      "now (wld st) \<le> e"
    by (auto simp: cache_miss_def Expired_def split: option.splits)
  from False show ?thesis
    by (simp add: roleHandler_def Let_def AssumeRole_cached_live [OF ce] count_hit_def
        split: prod.splits option.splits)
qed

text \<open>
  Claim C10. For every request on the role-credentials route the handler calls
  \<^verbatim>\<open>RoleARN\<close> and then \<^verbatim>\<open>AssumeRole\<close> with the empty external ID, and nothing else:
  it never looks an external ID up, its result does not depend on the external-ID
  lookup of the role mapper, and no request it sends to the remote service carries an
  external ID.
\<close>

theorem roleHandler_empty_external_id:
  "calls (snd (roleHandler d A s r st))
     = calls st @ [Call_RoleARN (mux_Var r ''role''),
                   Call_AssumeRole (RoleARN d (iam s) (mux_Var r ''role'')) []
                     (parseRemoteAddr d (RemoteAddr r)) (IAMRoleSessionTTL s)]
   \<and> roleHandler d A (s\<lparr>roleMapper := (roleMapper s)\<lparr>GetExternalIDMapping := f\<rparr>\<rparr>) r st
       = roleHandler d A s r st
   \<and> set (map ExternalId (drop (length (sts_log (wld st)))
        (sts_log (wld (snd (roleHandler d AssumeRole_cached s r st)))))) \<subseteq> {None}
   \<and> map ExternalId (drop (length (sts_log (wld st)))
        (sts_log (wld (snd (roleHandler d AssumeRole_direct s r st))))) = [None]"
proof (intro conjI)
  show "roleHandler d A (s\<lparr>roleMapper := (roleMapper s)\<lparr>GetExternalIDMapping := f\<rparr>\<rparr>) r st
       = roleHandler d A s r st"
    by (simp add: roleHandler_def)
next
  show "set (map ExternalId (drop (length (sts_log (wld st)))
        (sts_log (wld (snd (roleHandler d AssumeRole_cached s r st)))))) \<subseteq> {None}"
    by (auto simp: roleHandler_cached_new_requests assumeRoleInput_cached_def)
next
  show "map ExternalId (drop (length (sts_log (wld st)))
        (sts_log (wld (snd (roleHandler d AssumeRole_direct s r st))))) = [None]"
    by (simp add: roleHandler_direct_log assumeRoleInput_direct_def)
qed (rule roleHandler_calls)

lemma ServeHTTP_returns: "fst (ServeHTTP fn r st) = Returns ()"
  by (simp add: ServeHTTP_def split: prod.splits outcome.splits)

lemma ServeHTTP_recovers:
  assumes "fn r st = (Panics p, st')" and "status (rw st') = None" and "conn_error (rw st') = None"
  shows "status (rw (snd (ServeHTTP fn r st))) = Some 500
    \<and> body (rw (snd (ServeHTTP fn r st))) = body (rw st') @ [Text (recovered_message p @ [CHR 0x0A])]"
  using assms
  by (simp add: ServeHTTP_def http_Error_def Write_def WriteHeader_def Header_Set_def Header_Del_def
      StatusInternalServerError_def)

text \<open>
  Claim C7, evaluated on the role-credentials route. \<^verbatim>\<open>Run\<close> registers that route
  through \<^verbatim>\<open>newrelic.WrapHandleFunc\<close>, not through \<^verbatim>\<open>newAppHandler\<close>. When the
  remote service answers without credentials, building the result dereferences a nil
  pointer: the panic leaves the handler, the connection is closed and no status is
  written, with either variant of \<^verbatim>\<open>AssumeRole\<close>. Under \<^verbatim>\<open>appHandler.ServeHTTP\<close>,
  as the other routes are registered, the same request is answered with status 500.
\<close>

theorem role_route_panic_closes_connection:
  "(RoleCredentials, HandleFunc_newrelic) \<in> set (Run_routes server0)
   \<and> fst (serve deps0 AssumeRole_cached no_ext server0 (RoleCredentials, HandleFunc_newrelic)
          role_request (hstate0 sts_malformed)) = ConnectionClosed nil_dereference
   \<and> status (rw (snd (serve deps0 AssumeRole_cached no_ext server0 (RoleCredentials, HandleFunc_newrelic)
          role_request (hstate0 sts_malformed)))) = None
   \<and> fst (serve deps0 AssumeRole_direct no_ext server0 (RoleCredentials, HandleFunc_newrelic)
          role_request (hstate0 sts_malformed)) = ConnectionClosed nil_dereference
   \<and> status (rw (snd (ServeHTTP (roleHandler deps0 AssumeRole_cached server0)
          role_request (hstate0 sts_malformed)))) = Some 500"
  by (simp add: Run_routes_def serve_def registered_handler_def route_handler_def roleHandler_def
      Let_def AssumeRole_cached_miss AssumeRole_direct_eq cache_miss_def hstate0_def world0_def
      sts_malformed_def newCredentials_def server0_def ServeHTTP_def http_Error_def Write_def
      WriteHeader_def Header_Set_def Header_Del_def fresh_writer_def StatusInternalServerError_def)

end
